theory Spec2Isabelle
  imports Complex_Main "HOL-Library.AList" "HOL-Library.Char_ord" "HOL-Library.List_Lexorder"
begin

section \<open>Data model\<close>

text \<open>
  The model follows \<^verbatim>\<open>main.py\<close>, \<^verbatim>\<open>database.py\<close> and
  \<^verbatim>\<open>queary_db.py\<close>. Python floats (confidences, box coordinates) are modelled
  as rationals, Python ints as \<open>int\<close>, tallies that only ever grow from 0 by \<open>+= 1\<close>
  and results of \<open>len\<close> as \<open>nat\<close>. A \<open>dict\<close> is an association list in insertion
  order (Python dictionaries keep insertion order); a \<open>defaultdict(int)\<close> additionally
  reads a missing key as 0. Instants (\<open>datetime\<close>) are counted in microseconds since
  \<open>datetime.min\<close>.
\<close>

datatype py_error = ZeroDivisionError | OverflowError | ValueError | EOFError | Exception

type_synonym counts = "(string \<times> nat) list"

text \<open>\<^verbatim>\<open>Config\<close> (config.py): the values the pipeline reads.\<close>

record config =
  MODEL_NAME :: string
  FRAME_SKIP :: int
  CONFIDENCE_THRESHOLD :: rat
  TARGET_CLASSES :: "string list"
  DISPLAY_VIDEO :: bool
  ENABLE_MONGODB :: bool

text \<open>One box of a detector result: \<open>box.cls[0]\<close>, \<open>box.conf[0]\<close>, \<open>box.xyxy[0]\<close>.\<close>

record box =
  cls :: int
  conf :: rat
  xyxy :: "rat \<times> rat \<times> rat \<times> rat"

text \<open>The dictionary \<open>detection_data\<close> built in \<open>process_video\<close>.\<close>

record detection =
  class_name :: string
  confidence :: rat
  bounding_box :: "rat \<times> rat \<times> rat \<times> rat"

text \<open>The dictionary \<open>document\<close> built in \<open>_save_to_mongodb\<close>.\<close>

record document =
  timestamp :: int
  video_source :: string
  frame_number :: int
  processed_frame_number :: int
  total_objects_detected :: nat
  object_counts :: counts
  detections :: "detection list"
  model_info :: "string \<times> rat"

text \<open>
  What one iteration of the \<open>while\<close> loop of \<open>process_video\<close> observes of the outside
  world after \<open>cap.read()\<close> has returned a frame: the detector's answer for the frame
  (a list of results, each with its boxes), the clock, whether the driver's
  \<open>insert_one\<close> raises, and whether \<open>cv2.waitKey\<close> reports the key \<open>q\<close>.
\<close>

record frame =
  results :: "box list list"
  utcnow :: int
  insert_raises :: bool
  key_q :: bool

text \<open>What the program prints, as far as the properties below need it.\<close>

datatype printed =
    Connected
  | ConnectionFailed
  | ContinuingWithoutDatabase
  | CannotOpenSource string
  | InsertError
  | DisplayCounts int int counts
  | Stopping
  | Summary int int counts

text \<open>
  The \<open>ObjectDetector\<close> object. \<open>db\<close> is \<open>None\<close> or the \<open>MongoDB\<close> handle, modelled by
  the collection it writes to; \<open>names\<close> is \<open>self.model.names\<close>.
\<close>

record detector =
  cfg :: config
  names :: "int \<Rightarrow> string"
  class_counts :: counts
  frame_count :: int
  processed_frames :: int
  db :: "document list option"
  out :: "printed list"

section \<open>main.py\<close>

subsection \<open>Dictionaries\<close>

text \<open>Reading \<open>d[k]\<close> of a \<open>defaultdict(int)\<close>.\<close>

definition dd_get :: "counts \<Rightarrow> string \<Rightarrow> nat" where
  "dd_get d k = (case map_of d k of None \<Rightarrow> 0 | Some v \<Rightarrow> v)"

text \<open>\<open>d[k] = v\<close>: an existing key keeps its place, a new key goes last.\<close>

definition dd_set :: "counts \<Rightarrow> string \<Rightarrow> nat \<Rightarrow> counts" where
  "dd_set d k v = AList.update k v d"

text \<open>Python's \<open>round(x, n)\<close> on the rational model: ties go to the even digit.\<close>

definition round_half_even :: "rat \<Rightarrow> int" where
  "round_half_even x =
     (let f = \<lfloor>x\<rfloor>; r = x - of_int f
      in if r < 1 / 2 then f else if 1 / 2 < r then f + 1
         else if even f then f else f + 1)"

definition py_round :: "rat \<Rightarrow> nat \<Rightarrow> rat" where
  "py_round x n = of_int (round_half_even (x * 10 ^ n)) / 10 ^ n"

subsection \<open>The body of the loop over boxes (main.py, lines 74-97)\<close>

text \<open>Lines 86-96: the dictionary \<open>detection_data\<close> for a box of class \<open>cname\<close>.\<close>

definition detection_data :: "string \<Rightarrow> box \<Rightarrow> detection" where
  "detection_data cname b =
     (let (x1, y1, x2, y2) = xyxy b
      in \<lparr>class_name = cname,
          confidence = py_round (conf b) 4,
          bounding_box = (py_round x1 2, py_round y1 2, py_round x2 2, py_round y2 2)\<rparr>)"

text \<open>Line 80: the box is skipped when a filter is set and the class is not in it.\<close>

definition skipped :: "config \<Rightarrow> string \<Rightarrow> bool" where
  "skipped c cname \<longleftrightarrow> TARGET_CLASSES c \<noteq> [] \<and> cname \<notin> set (TARGET_CLASSES c)"

definition process_box ::
  "config \<Rightarrow> (int \<Rightarrow> string) \<Rightarrow> counts \<times> detection list \<Rightarrow> box \<Rightarrow> counts \<times> detection list"
where
  "process_box c nm acc b =
     (let frame_counts = fst acc;
          detections_list = snd acc;
          cname = nm (cls b)
      in if skipped c cname then acc
         else (dd_set frame_counts cname (dd_get frame_counts cname + 1),
               detections_list @ [detection_data cname b]))"

text \<open>
  Lines 68-97: \<open>frame_counts\<close> and \<open>detections_list\<close> start empty for each processed
  frame; the outer loop runs over the results, the inner one over each result's boxes.
\<close>

definition process_results ::
  "config \<Rightarrow> (int \<Rightarrow> string) \<Rightarrow> box list list \<Rightarrow> counts \<times> detection list"
where
  "process_results c nm rs = foldl (\<lambda>acc result. foldl (process_box c nm) acc result) ([], []) rs"

text \<open>Lines 108-109: folding a frame's counts into the running counters.\<close>

definition update_total :: "counts \<Rightarrow> string \<times> nat \<Rightarrow> counts" where
  "update_total cc kv = dd_set cc (fst kv) (max (dd_get cc (fst kv)) (snd kv))"

definition update_total_counts :: "counts \<Rightarrow> counts \<Rightarrow> counts" where
  "update_total_counts cc frame_counts = foldl update_total cc frame_counts"

subsection \<open>\<open>_save_to_mongodb\<close>, \<open>_display_counts\<close>, \<open>_display_summary\<close>\<close>

text \<open>
  \<open>insert_detection\<close> (database.py) appends the document to the collection or raises;
  \<open>_save_to_mongodb\<close> catches every \<open>Exception\<close> and prints the error.
\<close>

definition insert_detection :: "document list \<Rightarrow> bool \<Rightarrow> document \<Rightarrow> py_error + document list" where
  "insert_detection coll raises doc = (if raises then Inl Exception else Inr (coll @ [doc]))"

definition make_document :: "detector \<Rightarrow> frame \<Rightarrow> detection list \<Rightarrow> counts \<Rightarrow> string \<Rightarrow> document" where
  "make_document d f detections_list frame_counts source =
     \<lparr>timestamp = utcnow f,
      video_source = source,
      frame_number = frame_count d,
      processed_frame_number = processed_frames d,
      total_objects_detected = length detections_list,
      object_counts = frame_counts,
      detections = detections_list,
      model_info = (MODEL_NAME (cfg d), CONFIDENCE_THRESHOLD (cfg d))\<rparr>"

definition save_to_mongodb ::
  "detector \<Rightarrow> document list \<Rightarrow> frame \<Rightarrow> detection list \<Rightarrow> counts \<Rightarrow> string \<Rightarrow> detector"
where
  "save_to_mongodb d coll f detections_list frame_counts source =
     (case insert_detection coll (insert_raises f)
             (make_document d f detections_list frame_counts source) of
        Inl e \<Rightarrow> d\<lparr>out := out d @ [InsertError]\<rparr>
      | Inr coll' \<Rightarrow> d\<lparr>db := Some coll'\<rparr>)"

definition display_counts :: "detector \<Rightarrow> counts \<Rightarrow> detector" where
  "display_counts d frame_counts =
     d\<lparr>out := out d @ [DisplayCounts (frame_count d) (processed_frames d) (sort_key fst frame_counts)]\<rparr>"

text \<open>
  The summary printed in the \<open>finally\<close> block; the elapsed time and the rate derived from
  it are left out.
\<close>

definition display_summary :: "detector \<Rightarrow> detector" where
  "display_summary d =
     d\<lparr>out := out d @ [Summary (frame_count d) (processed_frames d) (sort_key fst (class_counts d))]\<rparr>"

subsection \<open>\<open>ObjectDetector.__init__\<close>\<close>

text \<open>
  \<open>server\<close> is the collection a successful \<open>MongoDB()\<close> would be connected to, or \<open>None\<close>
  when the constructor raises.
\<close>

definition init :: "config \<Rightarrow> (int \<Rightarrow> string) \<Rightarrow> document list option \<Rightarrow> detector" where
  "init c nm server =
     (let d = \<lparr>cfg = c, names = nm, class_counts = [], frame_count = 0, processed_frames = 0,
               db = None, out = []\<rparr>
      in if ENABLE_MONGODB c then
           (case server of
              Some coll \<Rightarrow> d\<lparr>db := Some coll, out := [Connected]\<rparr>
            | None \<Rightarrow> d\<lparr>out := [ConnectionFailed, ContinuingWithoutDatabase]\<rparr>)
         else d)"

subsection \<open>\<open>process_video\<close>\<close>

datatype flow = Next | Break | Raised py_error

text \<open>One iteration of the \<open>while\<close> loop, lines 56-127, for a frame that was read.\<close>

definition loop_body :: "string \<Rightarrow> detector \<Rightarrow> frame \<Rightarrow> detector \<times> flow" where
  "loop_body source d0 f =
     (let d1 = d0\<lparr>frame_count := frame_count d0 + 1\<rparr>
      in if FRAME_SKIP (cfg d1) = 0 then (d1, Raised ZeroDivisionError)
         else if frame_count d1 mod FRAME_SKIP (cfg d1) \<noteq> 0 then (d1, Next)
         else
           (let d2 = d1\<lparr>processed_frames := processed_frames d1 + 1\<rparr>;
                (frame_counts, detections_list) = process_results (cfg d2) (names d2) (results f);
                d3 = d2\<lparr>class_counts := update_total_counts (class_counts d2) frame_counts\<rparr>;
                d4 = (case db d3 of
                        Some coll \<Rightarrow>
                          if detections_list \<noteq> []
                          then save_to_mongodb d3 coll f detections_list frame_counts source
                          else d3
                      | None \<Rightarrow> d3);
                d5 = display_counts d4 frame_counts
            in if DISPLAY_VIDEO (cfg d5) \<and> key_q f
               then (d5\<lparr>out := out d5 @ [Stopping]\<rparr>, Break)
               else (d5, Next)))"

text \<open>
  The \<open>while\<close> loop over the frames that \<open>cap.read()\<close> delivers; the list ends where
  \<open>ret\<close> is false or the capture is closed.
\<close>

fun while_loop :: "string \<Rightarrow> detector \<Rightarrow> frame list \<Rightarrow> detector \<times> py_error option" where
  "while_loop source d [] = (d, None)"
| "while_loop source d (f # fs) =
     (case loop_body source d f of
        (d', Next) \<Rightarrow> while_loop source d' fs
      | (d', Break) \<Rightarrow> (d', None)
      | (d', Raised e) \<Rightarrow> (d', Some e))"

text \<open>
  \<open>process_video\<close>: \<open>video\<close> is \<open>None\<close> when the source cannot be opened. The \<open>finally\<close>
  block prints the summary also when an exception leaves the loop.
\<close>

definition process_video :: "detector \<Rightarrow> string \<Rightarrow> frame list option \<Rightarrow> detector \<times> py_error option" where
  "process_video d source video =
     (case video of
        None \<Rightarrow> (d\<lparr>out := out d @ [CannotOpenSource source]\<rparr>, None)
      | Some fs \<Rightarrow>
          (let (d', e) = while_loop source d fs in (display_summary d', e)))"

section \<open>database.py\<close>

text \<open>
  The collection is the list of its documents. Instants are kept at one resolution;
  the driver's rounding of instants to milliseconds is outside the model. A call of the
  driver that fails is a flag of the call.
\<close>

subsection \<open>\<open>datetime\<close> arithmetic\<close>

text \<open>\<open>timedelta(days=n)\<close> raises \<open>OverflowError\<close> beyond 999999999 days.\<close>

definition timedelta_days :: "int \<Rightarrow> py_error + int" where
  "timedelta_days n = (if \<bar>n\<bar> > 999999999 then Inl OverflowError else Inr (n * 86400000000))"

text \<open>Instants run from \<open>datetime.min\<close> (0) to \<open>datetime.max\<close>, the last microsecond of year 9999.\<close>

definition datetime_end :: int where
  "datetime_end = 3652059 * 86400000000"

definition datetime_sub :: "int \<Rightarrow> int \<Rightarrow> py_error + int" where
  "datetime_sub t delta =
     (let r = t - delta in if 0 \<le> r \<and> r < datetime_end then Inr r else Inl OverflowError)"

subsection \<open>\<open>delete_old_detections\<close>\<close>

text \<open>\<open>collection.delete_many(q)\<close>: removes the documents that match, reports how many.\<close>

definition delete_many ::
  "(document \<Rightarrow> bool) \<Rightarrow> document list \<Rightarrow> bool \<Rightarrow> py_error + nat \<times> document list"
where
  "delete_many q coll raises =
     (if raises then Inl Exception
      else Inr (length (filter q coll), filter (\<lambda>d. \<not> q d) coll))"

text \<open>
  \<open>delete_old_detections(days)\<close> at clock reading \<open>now\<close>. Whatever is raised inside the
  \<open>try\<close> leaves the method as \<open>Exception\<close>.
\<close>

definition delete_old_detections ::
  "document list \<Rightarrow> int \<Rightarrow> bool \<Rightarrow> int \<Rightarrow> py_error + nat \<times> document list"
where
  "delete_old_detections coll now raises days =
     (case timedelta_days days of
        Inl e \<Rightarrow> Inl Exception
      | Inr delta \<Rightarrow>
          (case datetime_sub now delta of
             Inl e \<Rightarrow> Inl Exception
           | Inr cutoff_date \<Rightarrow>
               (case delete_many (\<lambda>d. timestamp d < cutoff_date) coll raises of
                  Inl e \<Rightarrow> Inl Exception
                | Inr r \<Rightarrow> Inr r)))"

subsection \<open>\<open>get_object_statistics\<close>\<close>

text \<open>One document of the aggregation's result; \<open>stat_id\<close> is its \<open>_id\<close>.\<close>

record class_stat =
  stat_id :: string
  total_count :: nat
  avg_confidence :: rat
  max_confidence :: rat
  min_confidence :: rat

text \<open>\<open>if video_source:\<close> holds for a string that is not empty.\<close>

definition truthy :: "string option \<Rightarrow> bool" where
  "truthy v = (case v of None \<Rightarrow> False | Some s \<Rightarrow> s \<noteq> [])"

text \<open>\<open>{"$match": {"video_source": video_source}}\<close>, left out when no source is given.\<close>

definition match_stage :: "string option \<Rightarrow> document list \<Rightarrow> document list" where
  "match_stage v docs =
     (case v of
        None \<Rightarrow> docs
      | Some s \<Rightarrow> if s \<noteq> [] then filter (\<lambda>d. video_source d = s) docs else docs)"

text \<open>\<open>{"$unwind": "$detections"}\<close>: one document per detection; the group stage reads
  nothing but the detection.\<close>

definition unwind_stage :: "document list \<Rightarrow> detection list" where
  "unwind_stage docs = concat (map detections docs)"

text \<open>The accumulators of the group stage for the class \<open>k\<close>.\<close>

definition group_row :: "detection list \<Rightarrow> string \<Rightarrow> class_stat option" where
  "group_row xs k =
     (case map confidence (filter (\<lambda>x. class_name x = k) xs) of
        [] \<Rightarrow> None
      | v # vs \<Rightarrow>
          Some \<lparr>stat_id = k,
                total_count = length (v # vs),
                avg_confidence = sum_list (v # vs) / of_nat (length (v # vs)),
                max_confidence = fold max vs v,
                min_confidence = fold min vs v\<rparr>)"

definition group_stage :: "detection list \<Rightarrow> class_stat list" where
  "group_stage xs = List.map_filter (group_row xs) (remdups (map class_name xs))"

text \<open>\<open>{"$sort": {"total_count": -1}}\<close>: by the one key, descending.\<close>

definition sort_stage :: "class_stat list \<Rightarrow> class_stat list" where
  "sort_stage rows = sort_key (\<lambda>r. - int (total_count r)) rows"

text \<open>
  The server fixes neither the order in which the group stage emits its groups nor the
  order the sort leaves between rows of equal key: \<open>server_order\<close> stands for the
  rearrangement a given server applies to the groups before they are sorted.
\<close>

definition get_object_statistics ::
  "(class_stat list \<Rightarrow> class_stat list) \<Rightarrow> document list \<Rightarrow> bool \<Rightarrow> string option \<Rightarrow>
   py_error + class_stat list"
where
  "get_object_statistics server_order coll raises v =
     (if raises then Inl Exception
      else Inr (sort_stage (server_order (group_stage (unwind_stage (match_stage v coll))))))"

section \<open>queary_db.py\<close>

subsection \<open>Strings\<close>

text \<open>Input lines are ASCII text.\<close>

definition is_space :: "char \<Rightarrow> bool" where
  "is_space ch \<longleftrightarrow>
     ch \<in> set [CHR '' '', CHR 0x09, CHR 0x0A, CHR 0x0B, CHR 0x0C, CHR 0x0D,
               CHR 0x1C, CHR 0x1D, CHR 0x1E, CHR 0x1F]"

definition py_strip :: "string \<Rightarrow> string" where
  "py_strip s = rev (dropWhile is_space (rev (dropWhile is_space s)))"

definition lower_char :: "char \<Rightarrow> char" where
  "lower_char ch =
     (case map_of (zip ''ABCDEFGHIJKLMNOPQRSTUVWXYZ'' ''abcdefghijklmnopqrstuvwxyz'') ch of
        None \<Rightarrow> ch
      | Some l \<Rightarrow> l)"

definition py_lower :: "string \<Rightarrow> string" where
  "py_lower s = map lower_char s"

definition digit_value :: "char \<Rightarrow> nat option" where
  "digit_value ch = map_of (zip ''0123456789'' [0, 1, 2, 3, 4, 5, 6, 7, 8, 9]) ch"

text \<open>Digits, with single underscores allowed between two digits.\<close>

fun py_digits :: "nat \<Rightarrow> string \<Rightarrow> nat option" where
  "py_digits acc [] = None"
| "py_digits acc [ch] = (case digit_value ch of None \<Rightarrow> None | Some v \<Rightarrow> Some (10 * acc + v))"
| "py_digits acc (ch # u # cs) =
     (case digit_value ch of
        None \<Rightarrow> None
      | Some v \<Rightarrow>
          if u = CHR ''_'' then py_digits (10 * acc + v) cs
          else py_digits (10 * acc + v) (u # cs))"

text \<open>\<open>int(s)\<close> for a string: an optional sign and digits, or \<open>ValueError\<close>.\<close>

definition py_int :: "string \<Rightarrow> py_error + int" where
  "py_int s =
     (let t = py_strip s
      in case t of
           [] \<Rightarrow> Inl ValueError
         | ch # cs \<Rightarrow>
             if ch = CHR ''-'' then
               (case py_digits 0 cs of None \<Rightarrow> Inl ValueError | Some n \<Rightarrow> Inr (- int n))
             else if ch = CHR ''+'' then
               (case py_digits 0 cs of None \<Rightarrow> Inl ValueError | Some n \<Rightarrow> Inr (int n))
             else
               (case py_digits 0 t of None \<Rightarrow> Inl ValueError | Some n \<Rightarrow> Inr (int n)))"

subsection \<open>The menu\<close>

text \<open>
  What the program observes when a call of \<open>input()\<close> returns: the line typed, and the
  state of the outside world at that time (the clock, whether \<open>MongoDB()\<close> raises,
  whether the driver's \<open>delete_many\<close> raises).
\<close>

record prompt =
  line :: string
  clock :: int
  connect_raises :: bool
  delete_raises :: bool

text \<open>What the tool prints, as far as the properties below need it.\<close>

datatype shown =
    RecentDetections int
  | ObjectStatistics "string option"
  | LastHours int
  | CollectionInformation
  | Exported string int
  | CleaningUp int
  | Deleted nat
  | CleanupCancelled
  | Exiting
  | InvalidChoice
  | ErrorMessage

text \<open>\<open>x = input(...).strip(); x = int(x) if x else default\<close>\<close>

definition int_or_default :: "string \<Rightarrow> int \<Rightarrow> py_error + int" where
  "int_or_default s dflt = (let t = py_strip s in if t = [] then Inr dflt else py_int t)"

text \<open>
  The functions that only read the store (options 1 to 5): inside \<open>with MongoDB() as db\<close>,
  so a failed connection is an exception; what they print is not detailed.
\<close>

definition read_only :: "prompt \<Rightarrow> shown \<Rightarrow> shown list" where
  "read_only p what = (if connect_raises p then [ErrorMessage] else [what])"

text \<open>
  \<open>cleanup_old_data(days)\<close>, called while the world is as at prompt \<open>p\<close>: what it
  prints, and the collection afterwards or the exception that leaves it.
\<close>

definition cleanup_old_data ::
  "prompt \<Rightarrow> int \<Rightarrow> document list \<Rightarrow> shown list \<times> (py_error + document list)"
where
  "cleanup_old_data p days coll =
     (if connect_raises p then ([], Inl Exception)
      else case delete_old_detections coll (clock p) (delete_raises p) days of
             Inl e \<Rightarrow> ([CleaningUp days], Inl e)
           | Inr (deleted_count, coll') \<Rightarrow> ([CleaningUp days, Deleted deleted_count], Inr coll'))"

text \<open>
  The \<open>try\<close> block of the menu loop for a choice other than \<open>7\<close>, read at prompt \<open>p0\<close>:
  what is printed, how many further lines are read, and the collection afterwards. An
  \<open>input()\<close> with no line left raises \<open>EOFError\<close>, which the \<open>except Exception\<close> clause
  reports like any other.
\<close>

definition menu_choice ::
  "prompt \<Rightarrow> prompt list \<Rightarrow> document list \<Rightarrow> shown list \<times> nat \<times> document list"
where
  "menu_choice p0 ps coll =
     (let choice = py_strip (line p0)
      in if choice = ''1'' then
        (case ps of
           [] \<Rightarrow> ([ErrorMessage], 0, coll)
         | p # _ \<Rightarrow>
             (case int_or_default (line p) 10 of
                Inl e \<Rightarrow> ([ErrorMessage], 1, coll)
              | Inr limit \<Rightarrow> (read_only p (RecentDetections limit), 1, coll)))
      else if choice = ''2'' then
        (case ps of
           [] \<Rightarrow> ([ErrorMessage], 0, coll)
         | p # _ \<Rightarrow>
             (let video_source = py_strip (line p)
              in (read_only p (ObjectStatistics (if video_source \<noteq> [] then Some video_source else None)),
                  1, coll)))
      else if choice = ''3'' then
        (case ps of
           [] \<Rightarrow> ([ErrorMessage], 0, coll)
         | p # _ \<Rightarrow>
             (case int_or_default (line p) 1 of
                Inl e \<Rightarrow> ([ErrorMessage], 1, coll)
              | Inr hours \<Rightarrow> (read_only p (LastHours hours), 1, coll)))
      else if choice = ''4'' then (read_only p0 CollectionInformation, 0, coll)
      else if choice = ''5'' then
        (case ps of
           [] \<Rightarrow> ([ErrorMessage], 0, coll)
         | p # ps' \<Rightarrow>
             (let output_file = py_strip (line p);
                  output_file = (if output_file \<noteq> [] then output_file else ''detections_export.json'')
              in case ps' of
                   [] \<Rightarrow> ([ErrorMessage], 1, coll)
                 | p' # _ \<Rightarrow>
                     (case int_or_default (line p') 100 of
                        Inl e \<Rightarrow> ([ErrorMessage], 2, coll)
                      | Inr limit \<Rightarrow> (read_only p' (Exported output_file limit), 2, coll))))
      else if choice = ''6'' then
        (case ps of
           [] \<Rightarrow> ([ErrorMessage], 0, coll)
         | p # ps' \<Rightarrow>
             (case int_or_default (line p) 7 of
                Inl e \<Rightarrow> ([ErrorMessage], 1, coll)
              | Inr days \<Rightarrow>
                  (case ps' of
                     [] \<Rightarrow> ([ErrorMessage], 1, coll)
                   | p' # _ \<Rightarrow>
                       (let confirm = py_lower (py_strip (line p'))
                        in if confirm = ''yes'' then
                             (case cleanup_old_data p' days coll of
                                (printed, Inl e) \<Rightarrow> (printed @ [ErrorMessage], 2, coll)
                              | (printed, Inr coll') \<Rightarrow> (printed, 2, coll'))
                           else ([CleanupCancelled], 2, coll)))))
      else ([InvalidChoice], 0, coll))"

text \<open>
  \<open>main\<close>: the loop ends with choice \<open>7\<close>, or with \<open>EOFError\<close> when no line is left for
  the choice itself, which is read outside the \<open>try\<close>.
\<close>

fun main :: "prompt list \<Rightarrow> document list \<Rightarrow> shown list \<times> document list \<times> py_error option" where
  "main [] coll = ([], coll, Some EOFError)"
| "main (p # ps) coll =
     (if py_strip (line p) = ''7'' then ([Exiting], coll, None)
      else
           (case menu_choice p ps coll of
              (printed, n, coll') \<Rightarrow>
                (case main (drop n ps) coll' of
                   (printed', coll'', e) \<Rightarrow> (printed @ printed', coll'', e))))"

section \<open>Notions used in the statements\<close>

text \<open>
  The frames for which the loop body ran to \<open>_display_counts\<close>, as the terminal shows
  them: the raw index and the processed-frame counter of each.
\<close>

fun processed_at :: "printed \<Rightarrow> (int \<times> int) option" where
  "processed_at (DisplayCounts n p _) = Some (n, p)"
| "processed_at _ = None"

definition processed_log :: "detector \<Rightarrow> (int \<times> int) list" where
  "processed_log d = List.map_filter processed_at (out d)"

text \<open>The invariant of the two counters under a skip interval that is at least 1.\<close>

definition cadence :: "detector \<Rightarrow> bool" where
  "cadence d \<longleftrightarrow>
     0 \<le> frame_count d \<and>
     processed_frames d = frame_count d div FRAME_SKIP (cfg d) \<and>
     processed_log d =
       map (\<lambda>k. (k * FRAME_SKIP (cfg d), k)) [1..frame_count d div FRAME_SKIP (cfg d)]"

text \<open>The number of detections of class \<open>k\<close> in a list.\<close>

definition class_tally :: "detection list \<Rightarrow> string \<Rightarrow> nat" where
  "class_tally xs k = length (filter (\<lambda>x. class_name x = k) xs)"

text \<open>What a frame's counts and detection list satisfy at every point of the loop over boxes.\<close>

definition tallied :: "config \<Rightarrow> counts \<times> detection list \<Rightarrow> bool" where
  "tallied c acc \<longleftrightarrow>
     distinct (map fst (fst acc)) \<and>
     (\<forall>k. map_of (fst acc) k =
            (if class_tally (snd acc) k = 0 then None else Some (class_tally (snd acc) k))) \<and>
     sum_list (map snd (fst acc)) = length (snd acc) \<and>
     (TARGET_CLASSES c \<noteq> [] \<longrightarrow> class_name ` set (snd acc) \<subseteq> set (TARGET_CLASSES c))"

text \<open>The same for a document.\<close>

definition well_counted :: "config \<Rightarrow> document \<Rightarrow> bool" where
  "well_counted c doc \<longleftrightarrow>
     detections doc \<noteq> [] \<and>
     total_objects_detected doc = length (detections doc) \<and>
     tallied c (object_counts doc, detections doc)"

text \<open>The part of the detector's state that does not concern the store or the terminal.\<close>

definition core :: "detector \<Rightarrow> config \<times> counts \<times> int \<times> int" where
  "core d = (cfg d, class_counts d, frame_count d, processed_frames d)"

section \<open>Example inputs\<close>

definition example_names :: "int \<Rightarrow> string" where
  "example_names i = (if i = 0 then ''person'' else if i = 2 then ''car'' else ''dog'')"

definition example_config :: config where
  "example_config =
     \<lparr>MODEL_NAME = ''yolov8m.pt'', FRAME_SKIP = 2, CONFIDENCE_THRESHOLD = 1 / 2,
      TARGET_CLASSES = [''person'', ''car''], DISPLAY_VIDEO = False, ENABLE_MONGODB = True\<rparr>"

definition example_box :: "int \<Rightarrow> rat \<Rightarrow> box" where
  "example_box i cf = \<lparr>cls = i, conf = cf, xyxy = (0, 0, 10, 10)\<rparr>"

definition example_frame :: "box list \<Rightarrow> int \<Rightarrow> bool \<Rightarrow> frame" where
  "example_frame bs t r = \<lparr>results = [bs], utcnow = t, insert_raises = r, key_q = False\<rparr>"

text \<open>Four frames; under a skip interval of 2 the second and the fourth are processed.\<close>

definition example_video :: "frame list" where
  "example_video =
     [example_frame [example_box 2 (9 / 10)] 100 False,
      example_frame [] 200 False,
      example_frame [example_box 2 (8 / 10), example_box 2 (95 / 100)] 300 False,
      example_frame [example_box 0 (7 / 10), example_box 16 (9 / 10), example_box 2 (6 / 10)] 400 False]"

section \<open>Properties\<close>

subsection \<open>Lemmas on the loop body\<close>

lemma map_filter_append:
  "List.map_filter g (xs @ ys) = List.map_filter g xs @ List.map_filter g ys"
  by (simp add: List.map_filter_def)

lemma save_to_mongodb_fields:
  "cfg (save_to_mongodb d coll f dl fc s) = cfg d"
  "names (save_to_mongodb d coll f dl fc s) = names d"
  "class_counts (save_to_mongodb d coll f dl fc s) = class_counts d"
  "frame_count (save_to_mongodb d coll f dl fc s) = frame_count d"
  "processed_frames (save_to_mongodb d coll f dl fc s) = processed_frames d"
  "List.map_filter processed_at (out (save_to_mongodb d coll f dl fc s)) =
     List.map_filter processed_at (out d)"
  by (simp_all add: save_to_mongodb_def map_filter_append List.map_filter_simps split: sum.splits)

lemma loop_body_counters:
  assumes "FRAME_SKIP (cfg d) \<noteq> 0" and "loop_body src d f = (d', fl)"
  shows "cfg d' = cfg d \<and> names d' = names d \<and> frame_count d' = frame_count d + 1 \<and>
     fl \<noteq> Raised e \<and>
     (if (frame_count d + 1) mod FRAME_SKIP (cfg d) = 0
      then processed_frames d' = processed_frames d + 1 \<and>
           processed_log d' = processed_log d @ [(frame_count d + 1, processed_frames d + 1)]
      else processed_frames d' = processed_frames d \<and> processed_log d' = processed_log d \<and>
           fl = Next)"
  using assms
  by (auto simp: loop_body_def Let_def display_counts_def save_to_mongodb_fields processed_log_def
      map_filter_append List.map_filter_simps split: prod.splits option.splits if_splits)

lemma loop_body_break:
  assumes "loop_body src d f = (d', Break)"
  shows "DISPLAY_VIDEO (cfg d) \<and> key_q f"
  using assms
  by (auto simp: loop_body_def Let_def display_counts_def save_to_mongodb_fields
      split: prod.splits option.splits if_splits)

subsection \<open>Frame cadence\<close>

lemma div_succ_dvd:
  fixes n N :: int
  assumes "1 \<le> N" "(n + 1) mod N = 0"
  shows "(n + 1) div N = n div N + 1" and "(n div N + 1) * N = n + 1"
proof -
  define q where "q = (n + 1) div N"
  have e: "n + 1 = N * q" using assms(2) mult_div_mod_eq[of N "n + 1"] by (simp add: q_def)
  have "n = N * (q - 1) + (N - 1)" using e by (simp add: algebra_simps)
  then have "n div N = q - 1" using assms(1) by (intro int_div_pos_eq[where r = "N - 1"]) auto
  then have d: "q = n div N + 1" by linarith
  then show "(n + 1) div N = n div N + 1" unfolding q_def .
  show "(n div N + 1) * N = n + 1" using e d by (simp only: mult.commute)
qed

lemma div_succ_ndvd:
  fixes n N :: int
  assumes "1 \<le> N" "(n + 1) mod N \<noteq> 0"
  shows "(n + 1) div N = n div N"
proof -
  define r where "r = n mod N"
  have r: "0 \<le> r" "r < N" using assms(1) by (simp_all add: r_def)
  have n: "n = N * (n div N) + r" by (simp add: r_def)
  have "r + 1 \<noteq> N"
  proof
    assume "r + 1 = N"
    then have "n + 1 = N * (n div N + 1)" using n by (simp add: algebra_simps)
    then have "(n + 1) mod N = 0" by (metis mod_mult_self1_is_0)
    with assms(2) show False by simp
  qed
  with r have "r + 1 < N" by simp
  moreover have "n + 1 = N * (n div N) + (r + 1)" using n by simp
  ultimately show ?thesis using r by (intro int_div_pos_eq[where r = "r + 1"]) auto
qed

lemma cadence_step:
  assumes N: "1 \<le> FRAME_SKIP (cfg d)" and c: "cadence d" and s: "loop_body src d f = (d', fl)"
  shows "cadence d'"
proof -
  let ?N = "FRAME_SKIP (cfg d)" and ?n = "frame_count d"
  have nz: "?N \<noteq> 0" using N by simp
  note lb = loop_body_counters[OF nz s, of ZeroDivisionError]
  have cf: "cfg d' = cfg d" and fc: "frame_count d' = ?n + 1" using lb by simp_all
  have n0: "0 \<le> ?n" and pf: "processed_frames d = ?n div ?N"
    and pl: "processed_log d = map (\<lambda>k. (k * ?N, k)) [1..?n div ?N]"
    using c by (simp_all add: cadence_def)
  have q0: "0 \<le> ?n div ?N" using n0 N by (simp add: pos_imp_zdiv_nonneg_iff)
  show ?thesis
  proof (cases "(?n + 1) mod ?N = 0")
    case True
    have d1: "(?n + 1) div ?N = ?n div ?N + 1" and d2: "(?n div ?N + 1) * ?N = ?n + 1"
      using div_succ_dvd[OF N True] by simp_all
    have u: "[1..?n div ?N + 1] = [1..?n div ?N] @ [?n div ?N + 1]"
      using q0 by (simp add: upto_rec2)
    from lb True have "processed_frames d' = processed_frames d + 1"
      and "processed_log d' = processed_log d @ [(?n + 1, processed_frames d + 1)]" by simp_all
    then show ?thesis using n0 pf pl d1 d2 u by (simp add: cadence_def cf fc)
  next
    case False
    have d1: "(?n + 1) div ?N = ?n div ?N" using div_succ_ndvd[OF N False] .
    from lb False have "processed_frames d' = processed_frames d"
      and "processed_log d' = processed_log d" by simp_all
    then show ?thesis using n0 pf pl d1 by (simp add: cadence_def cf fc)
  qed
qed

lemma while_loop_cadence:
  assumes "1 \<le> FRAME_SKIP (cfg d)" "cadence d" "while_loop src d fs = (d', e)"
  shows "cadence d' \<and> e = None \<and> cfg d' = cfg d \<and>
         frame_count d' \<le> frame_count d + int (length fs) \<and>
         ((DISPLAY_VIDEO (cfg d) \<longrightarrow> (\<forall>f\<in>set fs. \<not> key_q f)) \<longrightarrow>
            frame_count d' = frame_count d + int (length fs))"
  using assms
proof (induction fs arbitrary: d)
  case Nil
  then show ?case by simp
next
  case (Cons f fs)
  obtain d1 fl where s: "loop_body src d f = (d1, fl)" by (cases "loop_body src d f")
  have nz: "FRAME_SKIP (cfg d) \<noteq> 0" using Cons.prems(1) by simp
  note lb = loop_body_counters[OF nz s]
  have c1: "cadence d1" using cadence_step[OF Cons.prems(1,2) s] .
  have cf: "cfg d1 = cfg d" and fc: "frame_count d1 = frame_count d + 1" using lb by simp_all
  show ?case
  proof (cases fl)
    case Next
    then have w: "while_loop src d1 fs = (d', e)" using Cons.prems(3) s by simp
    have N1: "1 \<le> FRAME_SKIP (cfg d1)" using Cons.prems(1) cf by simp
    from Cons.IH[OF N1 c1 w] show ?thesis using cf fc by auto
  next
    case Break
    then have "d' = d1" "e = None" using Cons.prems(3) s by simp_all
    moreover have "DISPLAY_VIDEO (cfg d) \<and> key_q f" using s Break loop_body_break by simp
    ultimately show ?thesis using c1 cf fc by auto
  next
    case (Raised x)
    then show ?thesis using lb[of x] by simp
  qed
qed

lemma init_fields:
  "cfg (init c nm server) = c"
  "names (init c nm server) = nm"
  "class_counts (init c nm server) = []"
  "frame_count (init c nm server) = 0"
  "processed_frames (init c nm server) = 0"
  "db (init c nm server) = (if ENABLE_MONGODB c then server else None)"
  by (simp_all add: init_def Let_def split: option.splits)

lemma cadence_init: "cadence (init c nm server)"
  by (simp add: cadence_def init_def Let_def processed_log_def List.map_filter_simps
      split: option.splits)

text \<open>
  C2. With a skip interval \<open>N \<ge> 1\<close> and both counters starting at 0, the run raises
  nothing; it consumes a prefix of the frames (all of them unless the display is on and
  \<open>q\<close> is pressed); the frames that are processed are, in order, those with raw index
  \<open>N, 2N, 3N, ...\<close> up to the last frame consumed, the \<open>k\<close>-th of them seeing the
  processed-frame counter at \<open>k\<close>: a raw index is processed if and only if it is a
  multiple of \<open>N\<close>, and after \<open>K\<close> qualifying frames the counter is \<open>K\<close>.
\<close>

theorem frame_cadence:
  assumes "1 \<le> FRAME_SKIP c" and "while_loop src (init c nm server) fs = (d', e)"
  shows "e = None \<and>
         frame_count d' \<le> int (length fs) \<and>
         ((DISPLAY_VIDEO c \<longrightarrow> (\<forall>f\<in>set fs. \<not> key_q f)) \<longrightarrow> frame_count d' = int (length fs)) \<and>
         processed_log d' = map (\<lambda>k. (k * FRAME_SKIP c, k)) [1..frame_count d' div FRAME_SKIP c] \<and>
         (\<forall>i. i \<in> fst ` set (processed_log d') \<longleftrightarrow>
                1 \<le> i \<and> i \<le> frame_count d' \<and> i mod FRAME_SKIP c = 0) \<and>
         processed_frames d' = int (length (processed_log d'))"
proof -
  let ?d = "init c nm server"
  have c0: "cfg ?d = c" "frame_count ?d = 0" by (simp_all add: init_fields)
  have N: "1 \<le> FRAME_SKIP (cfg ?d)" using assms(1) c0 by simp
  note w = while_loop_cadence[OF N cadence_init assms(2)]
  have cf: "cfg d' = c" using w c0 by simp
  have cad: "cadence d'" using w by simp
  have n0: "0 \<le> frame_count d'"
    and pf: "processed_frames d' = frame_count d' div FRAME_SKIP c"
    and pl: "processed_log d' = map (\<lambda>k. (k * FRAME_SKIP c, k)) [1..frame_count d' div FRAME_SKIP c]"
    using cad cf by (simp_all add: cadence_def)
  have q0: "0 \<le> frame_count d' div FRAME_SKIP c"
    using n0 assms(1) by (simp add: pos_imp_zdiv_nonneg_iff)
  have mem: "i \<in> fst ` set (processed_log d') \<longleftrightarrow>
               1 \<le> i \<and> i \<le> frame_count d' \<and> i mod FRAME_SKIP c = 0" for i
  proof
    assume "i \<in> fst ` set (processed_log d')"
    then obtain k where k: "1 \<le> k" "k \<le> frame_count d' div FRAME_SKIP c" "i = k * FRAME_SKIP c"
      unfolding pl by auto
    have "k * FRAME_SKIP c \<le> (frame_count d' div FRAME_SKIP c) * FRAME_SKIP c"
      using k(2) assms(1) by (intro mult_right_mono) auto
    also have "\<dots> \<le> frame_count d'"
      using assms(1)
      by (metis div_mult_mod_eq le_add_same_cancel1 pos_mod_sign zero_less_one_class.zero_less_one
          order_less_le_trans)
    finally have "i \<le> frame_count d'" using k(3) by simp
    moreover have "1 \<le> i" using k(1,3) assms(1) by (metis mult_mono mult_1 zero_le_one order_trans)
    ultimately show "1 \<le> i \<and> i \<le> frame_count d' \<and> i mod FRAME_SKIP c = 0" using k(3) by simp
  next
    assume a: "1 \<le> i \<and> i \<le> frame_count d' \<and> i mod FRAME_SKIP c = 0"
    define k where "k = i div FRAME_SKIP c"
    have ik: "i = k * FRAME_SKIP c" using a by (simp add: k_def mod_0_imp_dvd)
    have "k \<le> frame_count d' div FRAME_SKIP c"
      unfolding k_def using a assms(1) by (intro zdiv_mono1) auto
    moreover have "1 \<le> k"
    proof (rule ccontr)
      assume "\<not> 1 \<le> k"
      then have "k \<le> 0" by simp
      then have "k * FRAME_SKIP c \<le> 0" using assms(1) by (simp add: mult_le_0_iff)
      then show False using a ik by simp
    qed
    ultimately have "k \<in> set [1..frame_count d' div FRAME_SKIP c]" by simp
    then show "i \<in> fst ` set (processed_log d')" unfolding pl using ik by force
  qed
  have len: "int (length (processed_log d')) = frame_count d' div FRAME_SKIP c"
    unfolding pl using q0 by simp
  show ?thesis using w c0 pl pf len mem by simp
qed

theorem frame_cadence_witness:
  "1 \<le> FRAME_SKIP example_config \<and>
   frame_count (fst (while_loop ''sample.mp4'' (init example_config example_names None) example_video)) = 4 \<and>
   processed_frames (fst (while_loop ''sample.mp4'' (init example_config example_names None) example_video)) = 2 \<and>
   processed_log (fst (while_loop ''sample.mp4'' (init example_config example_names None) example_video))
     = [(2, 1), (4, 2)]"
proof -
  have N: "1 \<le> FRAME_SKIP example_config" by (simp add: example_config_def)
  have D: "\<not> DISPLAY_VIDEO example_config" by (simp add: example_config_def)
  have F: "FRAME_SKIP example_config = 2" by (simp add: example_config_def)
  have L: "int (length example_video) = 4" by (simp add: example_video_def)
  have U: "[1..(2::int)] = [1, 2]" by (simp add: upto.simps)
  note t = frame_cadence[OF N surjective_pairing, of "''sample.mp4''" example_names None example_video]
  from t D L
  have fc: "frame_count (fst (while_loop ''sample.mp4'' (init example_config example_names None)
      example_video)) = 4"
    by simp
  show ?thesis using N t fc F U by simp
qed

end
